theory Spec2Isabelle
  imports Main
begin

section \<open>Python strings\<close>

text \<open>
  A Python \<open>str\<close> is modelled as a \<open>string\<close>: a list of characters, each character
  standing for the code point of the same number. The type \<open>char\<close> has 256 values, so the
  model covers the strings whose code points lie below 256 (ASCII and Latin-1); on that
  range \<open>str.lower\<close> and \<open>str.strip\<close> are modelled exactly as Python computes them.
\<close>

text \<open>
  \<open>str.lower()\<close>, per character: the ASCII capitals \<open>A\<close>..\<open>Z\<close> and the Latin-1 capitals
  \<open>U+00C0\<close>..\<open>U+00DE\<close> (the multiplication sign \<open>U+00D7\<close> apart) move up by 32; every
  other character below 256 is its own lower case.
\<close>

definition lower_char :: "char \<Rightarrow> char" where
  "lower_char c =
     (let n = (of_char c :: nat)
      in if (65 \<le> n \<and> n \<le> 90) \<or> (192 \<le> n \<and> n \<le> 222 \<and> n \<noteq> 215)
         then char_of (n + 32) else c)"

definition lower :: "string \<Rightarrow> string" where
  "lower s = map lower_char s"

text \<open>
  \<open>str.isspace\<close> on one character, as \<open>str.strip()\<close> without argument uses it: tab, line
  feed, vertical tab, form feed, carriage return, the four separators \<open>0x1C\<close>..\<open>0x1F\<close>,
  the space, and below 256 also next-line \<open>U+0085\<close> and the no-break space \<open>U+00A0\<close>.
\<close>

definition is_space :: "char \<Rightarrow> bool" where
  "is_space c =
     (let n = (of_char c :: nat)
      in (9 \<le> n \<and> n \<le> 13) \<or> (28 \<le> n \<and> n \<le> 32) \<or> n = 133 \<or> n = 160)"

definition strip :: "string \<Rightarrow> string" where
  "strip s = rev (dropWhile is_space (rev (dropWhile is_space s)))"

text \<open>
  \<open>s.split(sep)\<close> for a one-character separator: the pieces between the separators, in
  order. The result is never the empty list (\<open>"".split(".")\<close> is \<open>[""]\<close>), so the
  index \<open>[-1]\<close> that the source applies to it always exists and is the last piece.
\<close>

fun split :: "char \<Rightarrow> string \<Rightarrow> string list" where
  "split sep [] = [[]]"
| "split sep (c # cs) =
     (if c = sep then [] # split sep cs
      else (case split sep cs of
              [] \<Rightarrow> [[c]]
            | p # ps \<Rightarrow> (c # p) # ps))"

text \<open>
  \<open>os.path.join(a, b)\<close> of \<open>posixpath\<close>: an absolute second component replaces the first;
  otherwise the two are joined by one \<open>/\<close>, which is not doubled.
\<close>

definition os_path_join :: "string \<Rightarrow> string \<Rightarrow> string" where
  "os_path_join a b =
     (if b \<noteq> [] \<and> hd b = CHR ''/'' then b
      else if a = [] \<or> last a = CHR ''/'' then a @ b
      else a @ ''/'' @ b)"

section \<open>Exceptions\<close>

text \<open>
  The exceptions a library call or a built-in can raise, by the class the handlers'
  \<open>except\<close> clauses tell apart, each with its \<open>str(e)\<close>: \<open>ValueError\<close> (and its
  subclasses), any other subclass of \<open>Exception\<close> (with the name of its class), and an
  exception that derives from \<open>BaseException\<close> only (\<open>KeyboardInterrupt\<close>,
  \<open>SystemExit\<close>), which \<open>except Exception\<close> does not catch.
\<close>

datatype py_exc =
    ValueError string
  | OtherError string string
  | BaseOnly string string

fun str_exc :: "py_exc \<Rightarrow> string" where
  "str_exc (ValueError m) = m"
| "str_exc (OtherError cls m) = m"
| "str_exc (BaseOnly cls m) = m"

text \<open>
  What leaves a request handler when it does not return: an \<open>HTTPException\<close> with its
  status code and detail, or an exception no clause caught.
\<close>

datatype failure =
    HTTPException nat string
  | Uncaught py_exc

section \<open>Document Loader Selector\<close>

datatype loader =
    PyPDFLoader string
  | Docx2txtLoader string
  | TextLoader string
  | CSVLoader string

text \<open>
  The constructors of the loader classes are library code and can raise: \<open>PyPDFLoader\<close>
  and \<open>Docx2txtLoader\<close> raise \<open>ValueError\<close> when there is no file at the path. What a
  constructor does is given from outside, as the exception it raises, if any.
\<close>

definition construct :: "(loader \<Rightarrow> py_exc option) \<Rightarrow> loader \<Rightarrow> py_exc + loader" where
  "construct new_loader l = (case new_loader l of Some e \<Rightarrow> Inl e | None \<Rightarrow> Inr l)"

text \<open>
  \<open>get_loader_for_file\<close>, defined with the same text in \<open>main.py\<close> and in \<open>Mock.py\<close>.
\<close>

definition get_loader_for_file :: "(loader \<Rightarrow> py_exc option) \<Rightarrow> string \<Rightarrow> py_exc + loader" where
  "get_loader_for_file new_loader file_path =
     (let file_extension = lower (last (split CHR ''.'' file_path))
      in if file_extension = ''pdf'' then construct new_loader (PyPDFLoader file_path)
         else if file_extension \<in> set [''docx'', ''doc'']
           then construct new_loader (Docx2txtLoader file_path)
         else if file_extension = ''txt'' then construct new_loader (TextLoader file_path)
         else if file_extension = ''csv'' then construct new_loader (CSVLoader file_path)
         else Inl (ValueError (''Unsupported file format: '' @ file_extension)))"

section \<open>External collaborators\<close>

text \<open>
  Text extraction, chunking, embedding, the vector index and the language model are
  library code outside the repository. Their objects are modelled as the terms that
  construct them; what the calls do (return a value, or raise) is given by a record of
  the outside world, one for each request.
\<close>

datatype document = Document (page_content: string)

datatype splitter = RecursiveCharacterTextSplitter (chunk_size: nat) (chunk_overlap: nat)

datatype embeddings = OpenAIEmbeddings string "string option"

datatype vector_store = FAISS "document list" embeddings

datatype retriever = VectorStoreRetriever vector_store

datatype llm = ChatOpenAI int string "string option"

datatype qa_chain = ConversationalRetrievalChain llm retriever bool

datatype qa_result = QAResult (result_answer: string) (source_documents: "document list")

datatype claim = Str string | NumericDate int

text \<open>
  The failures of \<open>jwt.decode\<close>: the signature does not verify, the token has expired,
  the token is not a well-formed JWT.
\<close>

datatype jwt_error = InvalidSignature | ExpiredSignature | DecodeError

type_synonym payload = "(string \<times> claim) list"

type_synonym chat_history = "(string \<times> string) list list"

record world =
  open_wb :: "string \<Rightarrow> py_exc option"
  copyfileobj :: "(nat \<times> py_exc) option"
  unlink :: "string \<Rightarrow> py_exc option"
  new_loader :: "loader \<Rightarrow> py_exc option"
  load :: "loader \<Rightarrow> string option \<Rightarrow> py_exc + document list"
  split_documents :: "splitter \<Rightarrow> document list \<Rightarrow> py_exc + document list"
  from_documents :: "document list \<Rightarrow> embeddings \<Rightarrow> py_exc option"
  new_llm :: "llm \<Rightarrow> py_exc option"
  from_llm :: "llm \<Rightarrow> retriever \<Rightarrow> bool \<Rightarrow> py_exc option"
  call_chain :: "qa_chain \<Rightarrow> string \<Rightarrow> chat_history \<Rightarrow> py_exc + qa_result"
  jwt_decode :: "string \<Rightarrow> string \<Rightarrow> string list \<Rightarrow> jwt_error + payload"
  jwt_encode :: "payload \<Rightarrow> string \<Rightarrow> string \<Rightarrow> string"
  utcnow :: int

text \<open>
  \<open>open_wb w p\<close> is the exception \<open>open(p, "wb")\<close> raises on a path that is no
  directory, if any; \<open>copyfileobj w\<close> is \<open>Some (n, e)\<close> when the copy raises \<open>e\<close> after
  writing \<open>n\<close> characters; \<open>unlink w p\<close> is the exception \<open>os.remove(p)\<close> raises on a
  regular file, if any (\<open>PermissionError\<close> where the directory or the file is protected).
  \<open>new_loader w l\<close> is the exception the constructor of the loader \<open>l\<close> raises, if any,
  and \<open>load w l c\<close> is \<open>l.load()\<close> on a file of content \<open>c\<close>. \<open>from_documents\<close>,
  \<open>new_llm\<close> and \<open>from_llm\<close> give the exception the constructor raises, if any.
  \<open>utcnow\<close> is the clock, in seconds.
\<close>

section \<open>The staging directory\<close>

text \<open>
  The file system says what is at a path: nothing, a regular file with its content, or a
  directory. A path is looked up as the string the handler built, so \<open>uploads/..\<close>,
  \<open>uploads/.\<close> and \<open>uploads/\<close> are paths of their own, at which a running server has a
  directory. The library calls do not write to the file system.
\<close>

datatype node = File string | Directory

type_synonym filesystem = "string \<rightharpoonup> node"

definition UPLOAD_DIR :: string where
  "UPLOAD_DIR = ''uploads''"

record upload = filename :: string
                content :: string

text \<open>
  The \<open>OSError\<close>s of the file system, with the texts of Linux; the name of the path that
  Python appends to the text is left out.
\<close>

definition IsADirectoryError :: py_exc where
  "IsADirectoryError = OtherError ''IsADirectoryError'' ''[Errno 21] Is a directory''"

definition FileNotFoundError :: py_exc where
  "FileNotFoundError = OtherError ''FileNotFoundError'' ''[Errno 2] No such file or directory''"

text \<open>
  \<open>with open(file_path, "wb") as buffer: shutil.copyfileobj(file.file, buffer)\<close>:
  \<open>open\<close> raises on a directory; once it has returned the file exists, empty; the copy
  then fills it.
\<close>

definition save_upload ::
  "world \<Rightarrow> string \<Rightarrow> string \<Rightarrow> filesystem \<Rightarrow> py_exc option \<times> filesystem" where
  "save_upload w file_path data fs =
     (case fs file_path of
        Some Directory \<Rightarrow> (Some IsADirectoryError, fs)
      | _ \<Rightarrow>
     (case open_wb w file_path of
        Some e \<Rightarrow> (Some e, fs)
      | None \<Rightarrow>
          (case copyfileobj w of
             Some (n, e) \<Rightarrow> (Some e, fs(file_path \<mapsto> File (take n data)))
           | None \<Rightarrow> (None, fs(file_path \<mapsto> File data)))))"

text \<open>\<open>os.path.exists\<close> holds of a regular file and of a directory.\<close>

definition os_path_exists :: "filesystem \<Rightarrow> string \<Rightarrow> bool" where
  "os_path_exists fs p = (fs p \<noteq> None)"

text \<open>
  \<open>os.remove\<close> raises when nothing is at the path, when a directory is, and when the
  system refuses to remove the file.
\<close>

definition os_remove :: "world \<Rightarrow> filesystem \<Rightarrow> string \<Rightarrow> py_exc + filesystem" where
  "os_remove w fs p =
     (case fs p of
        None \<Rightarrow> Inl FileNotFoundError
      | Some Directory \<Rightarrow> Inl IsADirectoryError
      | Some (File c) \<Rightarrow>
          (case unlink w p of
             Some e \<Rightarrow> Inl e
           | None \<Rightarrow> Inr (fs(p := None))))"

text \<open>What a loader reads at a path: the content of the regular file there, if any.\<close>

definition read_file :: "filesystem \<Rightarrow> string \<Rightarrow> string option" where
  "read_file fs p = (case fs p of Some (File c) \<Rightarrow> Some c | _ \<Rightarrow> None)"

section \<open>Session State\<close>

record session =
  vector_store :: "vector_store option"
  qa_chain :: "qa_chain option"

text \<open>
  The module start of both files: the key is the literal \<open>""\<close>, the guard on it raises
  \<open>RuntimeError\<close>, and only past the guard are the embeddings built and both fields of
  the Session State set to \<open>None\<close>. The process environment is an argument of the
  model that no statement of the source reads.
\<close>

definition openai_api_key :: string where
  "openai_api_key = []"

definition initial_session :: session where
  "initial_session = \<lparr>vector_store = None, qa_chain = None\<rparr>"

definition main_embeddings :: "string \<Rightarrow> embeddings" where
  "main_embeddings key = OpenAIEmbeddings key (Some ''text-embedding-ada-002'')"

definition mock_embeddings :: "string \<Rightarrow> embeddings" where
  "mock_embeddings key = OpenAIEmbeddings key None"

definition main_startup :: "(string \<rightharpoonup> string) \<Rightarrow> py_exc + embeddings \<times> session" where
  "main_startup environ =
     (if openai_api_key = []
      then Inl (OtherError ''RuntimeError'' ''Please set a valid OpenAI API key'')
      else Inr (main_embeddings openai_api_key, initial_session))"

definition mock_startup :: "(string \<rightharpoonup> string) \<Rightarrow> py_exc + embeddings \<times> session" where
  "mock_startup environ =
     (if openai_api_key = []
      then Inl (OtherError ''RuntimeError'' ''OPENAI_API_KEY environment variable is not set'')
      else Inr (mock_embeddings openai_api_key, initial_session))"

section \<open>Upload\<close>

text \<open>
  The handlers are defined past the guard on the key, so they run only where the literal
  has been replaced by a non-empty key; the model takes that key as the argument \<open>key\<close>.
  Requests are handled one at a time. The \<open>print\<close> statements of \<open>main.py\<close> are left
  out: they are taken to succeed and change nothing the handlers read.

  The statements both handlers share, from the loader to the return. The two globals are
  assigned one after the other: \<open>vector_store\<close> as soon as the index is built,
  \<open>qa_chain\<close> as the last statement before the return.
\<close>

definition process_document ::
  "world \<Rightarrow> embeddings \<Rightarrow> llm \<Rightarrow> string \<Rightarrow> filesystem \<Rightarrow> session
     \<Rightarrow> (py_exc + string) \<times> session" where
  "process_document w emb model file_path fs s =
     (case get_loader_for_file (new_loader w) file_path of
        Inl e \<Rightarrow> (Inl e, s)
      | Inr loader \<Rightarrow>
     (case load w loader (read_file fs file_path) of
        Inl e \<Rightarrow> (Inl e, s)
      | Inr documents \<Rightarrow>
     (case split_documents w (RecursiveCharacterTextSplitter 1000 200) documents of
        Inl e \<Rightarrow> (Inl e, s)
      | Inr texts \<Rightarrow>
     (case from_documents w texts emb of
        Some e \<Rightarrow> (Inl e, s)
      | None \<Rightarrow>
          (let s1 = s\<lparr>vector_store := Some (FAISS texts emb)\<rparr>
           in case new_llm w model of
                Some e \<Rightarrow> (Inl e, s1)
              | None \<Rightarrow>
                  (case from_llm w model (VectorStoreRetriever (FAISS texts emb)) True of
                     Some e \<Rightarrow> (Inl e, s1)
                   | None \<Rightarrow>
                       (Inr ''File processed successfully'',
                        s1\<lparr>qa_chain := Some (ConversationalRetrievalChain model
                                 (VectorStoreRetriever (FAISS texts emb)) True)\<rparr>)))))))"

text \<open>The language model as each file constructs it.\<close>

definition main_llm :: "string \<Rightarrow> llm" where
  "main_llm key = ChatOpenAI 0 key (Some ''gpt-3.5-turbo'')"

definition mock_llm :: "string \<Rightarrow> llm" where
  "mock_llm key = ChatOpenAI 0 key None"

text \<open>
  The \<open>except\<close> clauses of \<open>upload_file\<close> in \<open>main.py\<close>: \<open>ValueError\<close> becomes 400 with
  \<open>str(e)\<close>, any other \<open>Exception\<close> 500; what is no \<open>Exception\<close> passes through.
\<close>

fun main_upload_except :: "py_exc \<Rightarrow> failure" where
  "main_upload_except (ValueError m) = HTTPException 400 m"
| "main_upload_except (OtherError cls m) = HTTPException 500 (''Internal Server Error: '' @ m)"
| "main_upload_except (BaseOnly cls m) = Uncaught (BaseOnly cls m)"

text \<open>The one clause \<open>except Exception\<close> of \<open>upload_file\<close> and \<open>ask_question\<close> in \<open>Mock.py\<close>.\<close>

fun mock_except :: "py_exc \<Rightarrow> failure" where
  "mock_except (BaseOnly cls m) = Uncaught (BaseOnly cls m)"
| "mock_except e = HTTPException 500 (str_exc e)"

text \<open>The one clause \<open>except Exception\<close> of \<open>ask_question\<close> in \<open>main.py\<close>.\<close>

fun main_ask_except :: "py_exc \<Rightarrow> failure" where
  "main_ask_except (BaseOnly cls m) = Uncaught (BaseOnly cls m)"
| "main_ask_except e = HTTPException 500 (''Internal Server Error: '' @ str_exc e)"

text \<open>
  \<open>upload_file\<close> of \<open>main.py\<close>. \<open>main_try\<close> is the \<open>try\<close> block with its \<open>except\<close>
  clauses, the save included; \<open>main_upload_file\<close> adds the \<open>finally\<close>, which removes the
  file if it exists. An exception raised by the \<open>finally\<close> would replace the outcome of
  the \<open>try\<close>.
\<close>

definition main_try ::
  "world \<Rightarrow> string \<Rightarrow> upload \<Rightarrow> session \<Rightarrow> filesystem
     \<Rightarrow> (failure + string) \<times> session \<times> filesystem" where
  "main_try w key file s fs =
     (let file_path = os_path_join UPLOAD_DIR (filename file);
          (saved, fs1) = save_upload w file_path (content file) fs
      in case saved of
           Some e \<Rightarrow> (Inl (main_upload_except e), s, fs1)
         | None \<Rightarrow>
             (case process_document w (main_embeddings key) (main_llm key) file_path fs1 s of
                (Inl e, s1) \<Rightarrow> (Inl (main_upload_except e), s1, fs1)
              | (Inr message, s1) \<Rightarrow> (Inr message, s1, fs1)))"

definition main_upload_file ::
  "world \<Rightarrow> string \<Rightarrow> upload \<Rightarrow> session \<Rightarrow> filesystem
     \<Rightarrow> (failure + string) \<times> session \<times> filesystem" where
  "main_upload_file w key file s fs =
     (let file_path = os_path_join UPLOAD_DIR (filename file);
          (result, s1, fs1) = main_try w key file s fs
      in if os_path_exists fs1 file_path
         then (case os_remove w fs1 file_path of
                 Inl e \<Rightarrow> (Inl (Uncaught e), s1, fs1)
               | Inr fs2 \<Rightarrow> (result, s1, fs2))
         else (result, s1, fs1))"

text \<open>
  \<open>upload_file\<close> of \<open>Mock.py\<close>, called with the user that \<open>get_current_user\<close> returned.
  The save comes before the \<open>try\<close>, so an exception of the save leaves the handler at
  once. \<open>mock_try\<close> is the \<open>try\<close> block with its \<open>except\<close> clause; the \<open>finally\<close> calls
  \<open>os.remove\<close> without a test.
\<close>

definition mock_try ::
  "world \<Rightarrow> string \<Rightarrow> string \<Rightarrow> session \<Rightarrow> filesystem \<Rightarrow> (failure + string) \<times> session" where
  "mock_try w key file_path s fs1 =
     (case process_document w (mock_embeddings key) (mock_llm key) file_path fs1 s of
        (Inl e, s1) \<Rightarrow> (Inl (mock_except e), s1)
      | (Inr message, s1) \<Rightarrow> (Inr message, s1))"

definition mock_upload_file ::
  "world \<Rightarrow> string \<Rightarrow> upload \<Rightarrow> 'u \<Rightarrow> session \<Rightarrow> filesystem
     \<Rightarrow> (failure + string) \<times> session \<times> filesystem" where
  "mock_upload_file w key file current_user s fs =
     (let file_path = os_path_join UPLOAD_DIR (filename file);
          (saved, fs1) = save_upload w file_path (content file) fs
      in case saved of
           Some e \<Rightarrow> (Inl (Uncaught e), s, fs1)
         | None \<Rightarrow>
             (let (result, s1) = mock_try w key file_path s fs1
              in case os_remove w fs1 file_path of
                   Inl e \<Rightarrow> (Inl (Uncaught e), s1, fs1)
                 | Inr fs2 \<Rightarrow> (result, s1, fs2)))"

section \<open>Ask\<close>

datatype ask_response = AskResponse (answer: string) (context_texts: "string list")

text \<open>
  \<open>ask_question\<close> of \<open>main.py\<close>: the test of the Session State comes first, the test of
  the question second; the chain is called with an empty history.
\<close>

definition main_ask_question :: "world \<Rightarrow> session \<Rightarrow> string \<Rightarrow> failure + ask_response" where
  "main_ask_question w s question =
     (if vector_store s = None \<or> qa_chain s = None
      then Inl (HTTPException 400 ''No document has been uploaded yet'')
      else if strip question = []
      then Inl (HTTPException 422 ''Question cannot be empty'')
      else (case qa_chain s of
              None \<Rightarrow> Inl (HTTPException 400 ''No document has been uploaded yet'')
            | Some chain \<Rightarrow>
                (case call_chain w chain question [] of
                   Inr result \<Rightarrow>
                     Inr (AskResponse (result_answer result)
                            (map page_content (source_documents result)))
                 | Inl e \<Rightarrow> Inl (main_ask_except e))))"

record question_request =
  question :: string
  chat_history :: chat_history

text \<open>
  \<open>ask_question\<close> of \<open>Mock.py\<close>, called with the user that \<open>get_current_user\<close>
  returned: the question is not tested, and goes to the chain with the caller's history.
\<close>

definition mock_ask_question ::
  "world \<Rightarrow> session \<Rightarrow> question_request \<Rightarrow> 'u \<Rightarrow> failure + ask_response" where
  "mock_ask_question w s request current_user =
     (if vector_store s = None \<or> qa_chain s = None
      then Inl (HTTPException 400 ''No document has been uploaded yet'')
      else (case qa_chain s of
              None \<Rightarrow> Inl (HTTPException 400 ''No document has been uploaded yet'')
            | Some chain \<Rightarrow>
                (case call_chain w chain (question request) (chat_history request) of
                   Inr result \<Rightarrow>
                     Inr (AskResponse (result_answer result)
                            (map page_content (source_documents result)))
                 | Inl e \<Rightarrow> Inl (mock_except e))))"

section \<open>Auth Gate (\<open>Mock.py\<close>)\<close>

definition SECRET_KEY :: string where
  "SECRET_KEY = ''your-secret-key''"

definition ALGORITHM :: string where
  "ALGORITHM = ''HS256''"

definition ACCESS_TOKEN_EXPIRE_MINUTES :: int where
  "ACCESS_TOKEN_EXPIRE_MINUTES = 30"

text \<open>The user table: a dictionary of dictionaries, as association lists.\<close>

type_synonym user = "(string \<times> string) list"

definition users_db :: "(string \<times> user) list" where
  "users_db =
     [(''admin'', [(''username'', ''admin''), (''hashed_password'', ''hashed_admin_password'')])]"

text \<open>\<open>d.update({k: v})\<close> on an association list: the value of a present key is replaced.\<close>

fun dict_update :: "'k \<Rightarrow> 'v \<Rightarrow> ('k \<times> 'v) list \<Rightarrow> ('k \<times> 'v) list" where
  "dict_update k v [] = [(k, v)]"
| "dict_update k v ((k', v') # ps) =
     (if k = k' then (k, v) # ps else (k', v') # dict_update k v ps)"

definition create_access_token :: "world \<Rightarrow> payload \<Rightarrow> string" where
  "create_access_token w data =
     (let to_encode = data;
          expire = utcnow w + ACCESS_TOKEN_EXPIRE_MINUTES * 60;
          to_encode = dict_update ''exp'' (NumericDate expire) to_encode
      in jwt_encode w to_encode SECRET_KEY ALGORITHM)"

text \<open>
  \<open>username in users_db\<close> for the value of a claim: the keys of the table are strings, so
  a claim that is not a string is not among them.
\<close>

fun users_db_get :: "claim \<Rightarrow> user option" where
  "users_db_get (Str username) = map_of users_db username"
| "users_db_get (NumericDate n) = None"

text \<open>The exceptions of PyJWT that \<open>jwt.decode\<close> raises for the three failures.\<close>

fun jwt_exc :: "jwt_error \<Rightarrow> py_exc" where
  "jwt_exc InvalidSignature = OtherError ''InvalidSignatureError'' ''Signature verification failed''"
| "jwt_exc ExpiredSignature = OtherError ''ExpiredSignatureError'' ''Signature has expired''"
| "jwt_exc DecodeError = OtherError ''DecodeError'' ''Not enough segments''"

text \<open>
  The clause \<open>except jwt.JWTError\<close>. The module that \<open>import jwt\<close> binds is PyJWT (the
  calls \<open>jwt.encode(payload, key, algorithm=...)\<close> and \<open>jwt.decode(token, key,
  algorithms=[...])\<close> are its interface); its exceptions are \<open>PyJWTError\<close> and its
  subclasses, and it has no attribute \<open>JWTError\<close>. Python evaluates the expression of an
  \<open>except\<close> clause when an exception reaches the clause; here the evaluation raises
  \<open>AttributeError\<close>, which takes the place of the exception that was on its way, whichever
  it was: one of \<open>jwt.decode\<close> or one of the two \<open>HTTPException\<close>s raised inside the
  \<open>try\<close>.
\<close>

definition quoted :: "string \<Rightarrow> string" where
  "quoted s = CHR 0x27 # s @ [CHR 0x27]"

definition no_attribute_JWTError :: py_exc where
  "no_attribute_JWTError =
     OtherError ''AttributeError''
       (''module '' @ quoted ''jwt'' @ '' has no attribute '' @ quoted ''JWTError'')"

definition except_jwt_JWTError :: "failure \<Rightarrow> failure" where
  "except_jwt_JWTError raised = Uncaught no_attribute_JWTError"

definition get_current_user :: "world \<Rightarrow> string \<Rightarrow> failure + user" where
  "get_current_user w token =
     (case jwt_decode w token SECRET_KEY [ALGORITHM] of
        Inl e \<Rightarrow> Inl (except_jwt_JWTError (Uncaught (jwt_exc e)))
      | Inr payload \<Rightarrow>
          (case map_of payload ''sub'' of
             None \<Rightarrow>
               Inl (except_jwt_JWTError
                      (HTTPException 401 ''Invalid authentication credentials''))
           | Some username \<Rightarrow>
               (case users_db_get username of
                  None \<Rightarrow> Inl (except_jwt_JWTError (HTTPException 401 ''User not found''))
                | Some user \<Rightarrow> Inr user)))"

record login_form =
  username :: string
  password :: string

record token =
  access_token :: string
  token_type :: string

text \<open>
  \<open>login\<close>: the table is asked for the user name; \<open>not user\<close> holds for a missing entry
  (and for an empty one). No statement reads \<open>form_data.password\<close>.
\<close>

definition login :: "world \<Rightarrow> login_form \<Rightarrow> failure + token" where
  "login w form_data =
     (case map_of users_db (username form_data) of
        None \<Rightarrow> Inl (HTTPException 400 ''Incorrect username or password'')
      | Some user \<Rightarrow>
          if user = [] then Inl (HTTPException 400 ''Incorrect username or password'')
          else (case map_of user ''username'' of
                  None \<Rightarrow> Inl (Uncaught (OtherError ''KeyError'' ''username''))
                | Some name \<Rightarrow>
                    Inr \<lparr>access_token = create_access_token w [(''sub'', Str name)],
                         token_type = ''bearer''\<rparr>))"

text \<open>
  A protected operation as the framework runs it: \<open>Depends(get_current_user)\<close> is
  resolved from the bearer token first, and the handler is called only with its result.
\<close>

definition mock_upload_endpoint ::
  "world \<Rightarrow> string \<Rightarrow> string \<Rightarrow> upload \<Rightarrow> session \<Rightarrow> filesystem
     \<Rightarrow> (failure + string) \<times> session \<times> filesystem" where
  "mock_upload_endpoint w key bearer file s fs =
     (case get_current_user w bearer of
        Inl f \<Rightarrow> (Inl f, s, fs)
      | Inr current_user \<Rightarrow> mock_upload_file w key file current_user s fs)"

definition mock_ask_endpoint ::
  "world \<Rightarrow> string \<Rightarrow> question_request \<Rightarrow> session \<Rightarrow> failure + ask_response" where
  "mock_ask_endpoint w bearer request s =
     (case get_current_user w bearer of
        Inl f \<Rightarrow> Inl f
      | Inr current_user \<Rightarrow> mock_ask_question w s request current_user)"

section \<open>Sequences of requests\<close>

text \<open>
  What the processing of an upload gave, before its cleanup: in \<open>main.py\<close> the outcome of
  the \<open>try\<close> block; in \<open>Mock.py\<close> the exception of the save, or else the outcome of the
  \<open>try\<close> block. The client is answered with it unless the \<open>finally\<close> raises.
\<close>

definition main_processing ::
  "world \<Rightarrow> string \<Rightarrow> upload \<Rightarrow> session \<Rightarrow> filesystem \<Rightarrow> failure + string" where
  "main_processing w key file s fs = fst (main_try w key file s fs)"

definition mock_processing ::
  "world \<Rightarrow> string \<Rightarrow> upload \<Rightarrow> session \<Rightarrow> filesystem \<Rightarrow> failure + string" where
  "mock_processing w key file s fs =
     (let file_path = os_path_join UPLOAD_DIR (filename file);
          (saved, fs1) = save_upload w file_path (content file) fs
      in case saved of
           Some e \<Rightarrow> Inl (Uncaught e)
         | None \<Rightarrow> fst (mock_try w key file_path s fs1))"

definition mock_endpoint_processing ::
  "world \<Rightarrow> string \<Rightarrow> string \<Rightarrow> upload \<Rightarrow> session \<Rightarrow> filesystem \<Rightarrow> failure + string" where
  "mock_endpoint_processing w key bearer file s fs =
     (case get_current_user w bearer of
        Inl f \<Rightarrow> Inl f
      | Inr current_user \<Rightarrow> mock_processing w key file s fs)"

text \<open>
  The server handles one upload after the other, each in the world of its own request.
  For each upload the history records what its processing gave: an upload has succeeded
  when its processing returned, also where the cleanup then raised.
\<close>

fun main_uploads ::
  "string \<Rightarrow> (world \<times> upload) list \<Rightarrow> session \<Rightarrow> filesystem
     \<Rightarrow> (failure + string) list \<times> session \<times> filesystem" where
  "main_uploads key [] s fs = ([], s, fs)"
| "main_uploads key ((w, file) # rest) s fs =
     (case main_upload_file w key file s fs of
        (r, s1, fs1) \<Rightarrow>
          (case main_uploads key rest s1 fs1 of
             (rs, s2, fs2) \<Rightarrow> (main_processing w key file s fs # rs, s2, fs2)))"

fun mock_uploads ::
  "string \<Rightarrow> (world \<times> string \<times> upload) list \<Rightarrow> session \<Rightarrow> filesystem
     \<Rightarrow> (failure + string) list \<times> session \<times> filesystem" where
  "mock_uploads key [] s fs = ([], s, fs)"
| "mock_uploads key ((w, bearer, file) # rest) s fs =
     (case mock_upload_endpoint w key bearer file s fs of
        (r, s1, fs1) \<Rightarrow>
          (case mock_uploads key rest s1 fs1 of
             (rs, s2, fs2) \<Rightarrow> (mock_endpoint_processing w key bearer file s fs # rs, s2, fs2)))"


text \<open>
  The half-built state: \<open>s'\<close> is \<open>s\<close> with the index field alone replaced, by an index
  that the world \<open>w\<close> did build, while the language model \<open>model\<close> or the chain bound
  to that index could not be constructed.
\<close>

definition index_only_replaced :: "world \<Rightarrow> llm \<Rightarrow> session \<Rightarrow> session \<Rightarrow> bool" where
  "index_only_replaced w model s s' =
     (case vector_store s' of
        None \<Rightarrow> False
      | Some (FAISS texts emb) \<Rightarrow>
          s' = s\<lparr>vector_store := Some (FAISS texts emb)\<rparr> \<and>
          from_documents w texts emb = None \<and>
          (new_llm w model \<noteq> None \<or>
           from_llm w model (VectorStoreRetriever (FAISS texts emb)) True \<noteq> None))"

section \<open>A world for the examples\<close>

text \<open>
  A world in which every call succeeds: the loader returns the file's content as one
  document, the splitter returns the documents as they are, the chain answers with the
  documents of its index. The token library knows five tokens: \<open>good\<close>, signed for
  \<open>admin\<close>; \<open>expired\<close>; \<open>forged\<close>, whose signature does not verify; \<open>nosub\<close>, with
  no subject; \<open>mallory\<close>, signed for a user the table does not have.
\<close>

definition calm :: world where
  "calm =
     \<lparr>open_wb = (\<lambda>p. None),
      copyfileobj = None,
      unlink = (\<lambda>p. None),
      new_loader = (\<lambda>l. None),
      load = (\<lambda>l c. case c of None \<Rightarrow> Inl (OtherError ''FileNotFoundError'' ''no file'')
                              | Some t \<Rightarrow> Inr [Document t]),
      split_documents = (\<lambda>sp ds. Inr ds),
      from_documents = (\<lambda>ts e. None),
      new_llm = (\<lambda>m. None),
      from_llm = (\<lambda>m r b. None),
      call_chain = (\<lambda>c q h. case c of
                      ConversationalRetrievalChain m (VectorStoreRetriever (FAISS ds e)) b \<Rightarrow>
                        Inr (QAResult ''an answer'' ds)),
      jwt_decode = (\<lambda>t k a.
                      if k = ''your-secret-key'' \<and> a = [''HS256'']
                      then (if t = ''good''
                              then Inr [(''sub'', Str ''admin''), (''exp'', NumericDate 1800)]
                            else if t = ''expired'' then Inl ExpiredSignature
                            else if t = ''forged'' then Inl InvalidSignature
                            else if t = ''nosub'' then Inr [(''exp'', NumericDate 1800)]
                            else if t = ''mallory''
                              then Inr [(''sub'', Str ''mallory''), (''exp'', NumericDate 1800)]
                            else Inl DecodeError)
                      else Inl InvalidSignature),
      jwt_encode = (\<lambda>p k a. ''good''),
      utcnow = 0\<rparr>"

text \<open>The same world, but the loader cannot read the file.\<close>

definition unreadable :: world where
  "unreadable = calm\<lparr>load := (\<lambda>l c. Inl (OtherError ''PdfReadError'' ''cannot read''))\<rparr>"

text \<open>The same world, but the embedding provider refuses the index build.\<close>

definition provider_down :: world where
  "provider_down =
     calm\<lparr>from_documents := (\<lambda>ts e. Some (OtherError ''APIError'' ''provider down''))\<rparr>"

text \<open>The same world, but the language model cannot be constructed.\<close>

definition llm_down :: world where
  "llm_down = calm\<lparr>new_llm := (\<lambda>m. Some (OtherError ''ValidationError'' ''no model''))\<rparr>"

text \<open>The same world, but the disk is full after two characters of the copy.\<close>

definition disk_full :: world where
  "disk_full =
     calm\<lparr>copyfileobj := Some (2, OtherError ''OSError'' ''[Errno 28] No space left on device'')\<rparr>"

text \<open>The same world, but the system refuses to remove files.\<close>

definition protected :: world where
  "protected =
     calm\<lparr>unlink := (\<lambda>p. Some (OtherError ''PermissionError'' ''[Errno 13] Permission denied''))\<rparr>"

text \<open>A file system with nothing at any path.\<close>

definition no_files :: filesystem where
  "no_files = Map.empty"

text \<open>
  The paths of the staging directory itself, as a running server has them (the directory
  is created at the module start).
\<close>

definition server_dirs :: filesystem where
  "server_dirs =
     [''uploads'' \<mapsto> Directory, ''uploads/'' \<mapsto> Directory,
      ''uploads/.'' \<mapsto> Directory, ''uploads/..'' \<mapsto> Directory]"

text \<open>A Session State built by an earlier upload of the text \<open>old\<close>.\<close>

definition old_index :: vector_store where
  "old_index = FAISS [Document ''old''] (main_embeddings ''sk-1'')"

definition old_session :: session where
  "old_session =
     \<lparr>vector_store = Some old_index,
      qa_chain = Some (ConversationalRetrievalChain (main_llm ''sk-1'')
                         (VectorStoreRetriever old_index) True)\<rparr>"

text \<open>The uploads of the examples, and the state the failed upload of \<open>b.txt\<close> leaves.\<close>

definition a_pdf :: upload where
  "a_pdf = \<lparr>filename = ''a.pdf'', content = ''%PDF''\<rparr>"

definition b_txt :: upload where
  "b_txt = \<lparr>filename = ''b.txt'', content = ''new''\<rparr>"

definition notes_xyz :: upload where
  "notes_xyz = \<lparr>filename = ''notes.xyz'', content = ''hello''\<rparr>"

definition dotless_pdf :: upload where
  "dotless_pdf = \<lparr>filename = ''pdf'', content = ''%PDF''\<rparr>"

definition dot_dot :: upload where
  "dot_dot = \<lparr>filename = ''..'', content = ''hello''\<rparr>"


text \<open>
  Two histories in which no upload succeeds: an unreadable file and then a language model
  that cannot be constructed; for \<open>Mock.py\<close>, a forged token and then the same failure
  of the language model.
\<close>

definition failed_main_history :: "(world \<times> upload) list" where
  "failed_main_history = [(unreadable, a_pdf), (llm_down, b_txt)]"

definition failed_mock_history :: "(world \<times> string \<times> upload) list" where
  "failed_mock_history = [(calm, ''forged'', a_pdf), (llm_down, ''good'', b_txt)]"

section \<open>Facts about the string operations\<close>

lemma split_not_Nil: "split sep s \<noteq> []"
  by (induction s) (auto split: list.splits)

lemma split_no_sep: "sep \<notin> set s \<Longrightarrow> split sep s = [s]"
  by (induction s) auto

lemma last_split_no_sep: "sep \<notin> set s \<Longrightarrow> last (split sep s) = s"
  by (simp add: split_no_sep)

text \<open>The last piece is what follows the final separator.\<close>

lemma split_append_sep:
  "split sep (a @ sep # b) = split sep a @ split sep b"
proof (induction a)
  case Nil
  show ?case by simp
next
  case (Cons c a)
  obtain p ps where "split sep a = p # ps"
    using split_not_Nil [of sep a] by (cases "split sep a") auto
  with Cons show ?case by simp
qed

lemma last_split_append:
  "sep \<notin> set e \<Longrightarrow> last (split sep (s @ sep # e)) = e"
  by (simp add: split_append_sep split_not_Nil split_no_sep)

lemma last_split_has_no_sep: "sep \<notin> set (last (split sep s))"
proof (induction s)
  case Nil
  show ?case by simp
next
  case (Cons c s)
  then show ?case
    using split_not_Nil [of sep s]
    by (auto split: list.splits)
qed

lemma dropWhile_rev_dropWhile_Nil:
  "dropWhile P (rev (dropWhile P s)) = [] \<Longrightarrow> dropWhile P s = []"
proof (rule ccontr)
  assume all: "dropWhile P (rev (dropWhile P s)) = []" and ne: "dropWhile P s \<noteq> []"
  from ne have "\<not> P (hd (dropWhile P s))"
    by (rule hd_dropWhile)
  moreover from all have "\<forall>x \<in> set (dropWhile P s). P x"
    by (simp add: dropWhile_eq_Nil_conv)
  ultimately show False
    using ne by (metis list.set_sel(1))
qed

lemma strip_empty_iff: "strip s = [] \<longleftrightarrow> (\<forall>c \<in> set s. is_space c)"
proof
  assume "strip s = []"
  then have "dropWhile is_space (rev (dropWhile is_space s)) = []"
    by (simp add: strip_def)
  then have "dropWhile is_space s = []"
    by (rule dropWhile_rev_dropWhile_Nil)
  then show "\<forall>c \<in> set s. is_space c"
    by (simp add: dropWhile_eq_Nil_conv)
next
  assume "\<forall>c \<in> set s. is_space c"
  then have d: "dropWhile is_space s = []"
    by (simp add: dropWhile_eq_Nil_conv)
  show "strip s = []"
    unfolding strip_def d by simp
qed

section \<open>Facts about the loader selector\<close>

lemma lower_supported:
  "lower ''pdf'' = ''pdf''" "lower ''docx'' = ''docx''" "lower ''doc'' = ''doc''"
  "lower ''txt'' = ''txt''" "lower ''csv'' = ''csv''"
  by (simp_all add: lower_def lower_char_def)

lemma get_loader_by_extension:
  "get_loader_for_file nl p =
     (let e = lower (last (split CHR ''.'' p))
      in if e = ''pdf'' then construct nl (PyPDFLoader p)
         else if e = ''docx'' \<or> e = ''doc'' then construct nl (Docx2txtLoader p)
         else if e = ''txt'' then construct nl (TextLoader p)
         else if e = ''csv'' then construct nl (CSVLoader p)
         else Inl (ValueError (''Unsupported file format: '' @ e)))"
  by (simp add: get_loader_for_file_def Let_def)

lemma get_loader_unsupported:
  assumes "lower (last (split CHR ''.'' p)) \<notin> {''pdf'', ''docx'', ''doc'', ''txt'', ''csv''}"
  shows "get_loader_for_file nl p =
           Inl (ValueError (''Unsupported file format: '' @ lower (last (split CHR ''.'' p))))"
  using assms by (simp add: get_loader_by_extension Let_def)

text \<open>A supported extension selects its extractor, if the constructor raises nothing.\<close>

lemma get_loader_supported:
  assumes "lower (last (split CHR ''.'' p)) \<in> {''pdf'', ''docx'', ''doc'', ''txt'', ''csv''}"
    and "\<And>l. nl l = None"
  shows "\<exists>l. get_loader_for_file nl p = Inr l"
  using assms by (auto simp: get_loader_by_extension construct_def Let_def)

text \<open>
  The path handed to the selector is the staging path, and its last piece is the
  extension of the uploaded name when that name has a dot.
\<close>

lemma staged_extension:
  assumes "CHR ''.'' \<notin> set ext"
  shows "last (split CHR ''.'' (os_path_join UPLOAD_DIR (base @ ''.'' @ ext))) = ext"
proof -
  have "os_path_join UPLOAD_DIR (base @ ''.'' @ ext) = base @ CHR ''.'' # ext
      \<or> os_path_join UPLOAD_DIR (base @ ''.'' @ ext) = (''uploads/'' @ base) @ CHR ''.'' # ext"
    by (simp add: os_path_join_def UPLOAD_DIR_def)
  then show ?thesis
    using last_split_append [OF assms, of base]
          last_split_append [OF assms, of "''uploads/'' @ base"]
    by auto
qed

text \<open>
  The staging path of a name without a dot has no dot either, and it has a \<open>/\<close>; lower
  case keeps the \<open>/\<close>, which none of the five extensions has.
\<close>

lemma staged_dotless:
  "CHR ''.'' \<notin> set name \<Longrightarrow> CHR ''.'' \<notin> set (os_path_join UPLOAD_DIR name)"
  by (auto simp: os_path_join_def UPLOAD_DIR_def)

lemma staged_has_slash: "CHR ''/'' \<in> set (os_path_join UPLOAD_DIR name)"
  by (cases name) (auto simp: os_path_join_def UPLOAD_DIR_def)

lemma lower_keeps_slash: "CHR ''/'' \<in> set s \<Longrightarrow> CHR ''/'' \<in> set (lower s)"
proof -
  have "lower_char CHR ''/'' = CHR ''/''"
    by (simp add: lower_char_def)
  then show "CHR ''/'' \<in> set s \<Longrightarrow> CHR ''/'' \<in> set (lower s)"
    by (force simp: lower_def)
qed

lemma slash_not_supported:
  "CHR ''/'' \<in> set e \<Longrightarrow> e \<notin> {''pdf'', ''docx'', ''doc'', ''txt'', ''csv''}"
  by auto

lemma loader_a_pdf:
  "get_loader_for_file (\<lambda>l. None) ''uploads/a.pdf'' = Inr (PyPDFLoader ''uploads/a.pdf'')"
  by code_simp

lemma loader_b_txt:
  "get_loader_for_file (\<lambda>l. None) ''uploads/b.txt'' = Inr (TextLoader ''uploads/b.txt'')"
  by code_simp

lemma loader_notes_xyz:
  "get_loader_for_file nl ''uploads/notes.xyz'' =
     Inl (ValueError ''Unsupported file format: xyz'')"
proof -
  have "lower (last (split CHR ''.'' ''uploads/notes.xyz'')) = ''xyz''"
    by code_simp
  then show ?thesis
    by (simp add: get_loader_by_extension)
qed

lemma staged_paths:
  "os_path_join UPLOAD_DIR ''a.pdf'' = ''uploads/a.pdf''"
  "os_path_join UPLOAD_DIR ''b.txt'' = ''uploads/b.txt''"
  "os_path_join UPLOAD_DIR ''notes.xyz'' = ''uploads/notes.xyz''"
  "os_path_join UPLOAD_DIR ''pdf'' = ''uploads/pdf''"
  "os_path_join UPLOAD_DIR ''README'' = ''uploads/README''"
  "os_path_join UPLOAD_DIR ''..'' = ''uploads/..''"
  by (simp_all add: os_path_join_def UPLOAD_DIR_def)

lemma example_uploads:
  "filename a_pdf = ''a.pdf''" "content a_pdf = ''%PDF''"
  "filename b_txt = ''b.txt''" "content b_txt = ''new''"
  "filename notes_xyz = ''notes.xyz''" "content notes_xyz = ''hello''"
  "filename dotless_pdf = ''pdf''" "content dotless_pdf = ''%PDF''"
  "filename dot_dot = ''..''" "content dot_dot = ''hello''"
  by (simp_all add: a_pdf_def b_txt_def notes_xyz_def dotless_pdf_def dot_dot_def)

lemma example_worlds:
  "open_wb calm = (\<lambda>p. None)" "copyfileobj calm = None" "unlink calm = (\<lambda>p. None)"
  "new_loader calm = (\<lambda>l. None)"
  "new_loader unreadable = (\<lambda>l. None)" "new_loader provider_down = (\<lambda>l. None)"
  "new_loader llm_down = (\<lambda>l. None)" "new_loader disk_full = (\<lambda>l. None)"
  "new_loader protected = (\<lambda>l. None)"
  by (simp_all add: calm_def unreadable_def provider_down_def llm_down_def disk_full_def
        protected_def)

section \<open>Facts about the staging directory and the upload\<close>

lemma save_upload_ok:
  "fs p \<noteq> Some Directory \<Longrightarrow> open_wb w p = None \<Longrightarrow> copyfileobj w = None \<Longrightarrow>
     save_upload w p d fs = (None, fs(p \<mapsto> File d))"
  by (auto simp: save_upload_def split: option.splits node.splits)

lemma save_upload_None:
  "save_upload w p d fs = (None, fs1) \<Longrightarrow> fs1 = fs(p \<mapsto> File d)"
  by (auto simp: save_upload_def split: option.splits node.splits prod.splits)

text \<open>The save leaves the file system as it was, or with a regular file at the path.\<close>

lemma save_upload_fs:
  "save_upload w p d fs = (r, fs1) \<Longrightarrow> fs1 = fs \<or> (\<exists>c. fs1 = fs(p \<mapsto> File c))"
  by (auto simp: save_upload_def split: option.splits node.splits prod.splits)

lemma save_upload_on_directory:
  "fs p = Some Directory \<Longrightarrow> save_upload w p d fs = (Some IsADirectoryError, fs)"
  by (simp add: save_upload_def)

text \<open>
  A failing run of the shared statements leaves the state as it was, or with the index
  alone replaced; a successful run sets both fields, the chain bound to the new index.
\<close>

lemma process_document_failure:
  "process_document w emb m p fs s = (Inl e, s') \<Longrightarrow> s' = s \<or> index_only_replaced w m s s'"
  by (auto simp: process_document_def index_only_replaced_def Let_def
           split: sum.splits option.splits)

lemma process_document_success:
  "process_document w emb m p fs s = (Inr msg, s') \<Longrightarrow>
     msg = ''File processed successfully'' \<and>
     (\<exists>texts. s' = s\<lparr>vector_store := Some (FAISS texts emb),
                       qa_chain := Some (ConversationalRetrievalChain m
                                           (VectorStoreRetriever (FAISS texts emb)) True)\<rparr>)"
  by (auto simp: process_document_def Let_def split: sum.splits option.splits)

lemma index_only_replaced_fields:
  "index_only_replaced w m s s' \<Longrightarrow> qa_chain s' = qa_chain s \<and> vector_store s' \<noteq> None"
  by (auto simp: index_only_replaced_def split: option.splits vector_store.splits)

section \<open>Facts about the handlers\<close>

lemma main_try_fs:
  assumes "main_try w key file s fs = (r, s1, fs1)"
  shows "fs1 = fs \<or> (\<exists>c. fs1 = fs(os_path_join UPLOAD_DIR (filename file) \<mapsto> File c))"
proof -
  let ?p = "os_path_join UPLOAD_DIR (filename file)"
  obtain saved fsa where sv: "save_upload w ?p (content file) fs = (saved, fsa)"
    by force
  with assms have "fsa = fs1"
    by (auto simp: main_try_def split: option.splits prod.splits sum.splits)
  with sv show ?thesis
    by (auto dest: save_upload_fs)
qed

text \<open>The \<open>finally\<close> does not touch the Session State.\<close>

lemma main_upload_file_session:
  "fst (snd (main_upload_file w key file s fs)) = fst (snd (main_try w key file s fs))"
  by (cases "main_try w key file s fs")
     (simp add: main_upload_file_def Let_def split: sum.splits)

text \<open>
  Where the staged path is no directory and the system does not refuse the removal, the
  \<open>finally\<close> of \<open>main.py\<close> raises nothing: the outcome is that of the \<open>try\<close> block, and
  nothing is left at the staged path.
\<close>

lemma main_upload_file_cleanup:
  assumes "fs (os_path_join UPLOAD_DIR (filename file)) \<noteq> Some Directory"
    and "unlink w (os_path_join UPLOAD_DIR (filename file)) = None"
  shows "main_upload_file w key file s fs =
     (case main_try w key file s fs of
        (result, s1, fs1) \<Rightarrow> (result, s1, fs(os_path_join UPLOAD_DIR (filename file) := None)))"
proof -
  let ?p = "os_path_join UPLOAD_DIR (filename file)"
  obtain r s1 fs1 where t: "main_try w key file s fs = (r, s1, fs1)"
    by (cases "main_try w key file s fs") auto
  from main_try_fs [OF t] show ?thesis
  proof
    assume same: "fs1 = fs"
    show ?thesis
    proof (cases "fs ?p")
      case None
      then have "fs(?p := None) = fs" by (simp add: fun_upd_idem)
      with None same t show ?thesis
        by (simp add: main_upload_file_def os_path_exists_def)
    next
      case (Some n)
      with assms(1) obtain c where "fs ?p = Some (File c)"
        by (cases n) auto
      with same t assms(2) show ?thesis
        by (simp add: main_upload_file_def os_path_exists_def os_remove_def)
    qed
  next
    assume "\<exists>c. fs1 = fs(?p \<mapsto> File c)"
    then obtain c where "fs1 = fs(?p \<mapsto> File c)" ..
    with t assms(2) show ?thesis
      by (simp add: main_upload_file_def os_path_exists_def os_remove_def)
  qed
qed

text \<open>So does the \<open>finally\<close> of \<open>Mock.py\<close>, once the save has completed.\<close>

lemma mock_upload_file_cleanup:
  assumes "fs (os_path_join UPLOAD_DIR (filename file)) \<noteq> Some Directory"
    and "open_wb w (os_path_join UPLOAD_DIR (filename file)) = None" "copyfileobj w = None"
    and "unlink w (os_path_join UPLOAD_DIR (filename file)) = None"
  shows "mock_upload_file w key file u s fs =
     (case mock_try w key (os_path_join UPLOAD_DIR (filename file)) s
             (fs(os_path_join UPLOAD_DIR (filename file) \<mapsto> File (content file))) of
        (result, s1) \<Rightarrow> (result, s1, fs(os_path_join UPLOAD_DIR (filename file) := None)))"
  using assms
  by (simp add: mock_upload_file_def save_upload_ok os_remove_def split: prod.splits)

lemma main_try_failure_session:
  assumes "main_try w key file s fs = (Inl f, s', fs1)"
  shows "s' = s \<or> index_only_replaced w (main_llm key) s s'"
proof -
  let ?p = "os_path_join UPLOAD_DIR (filename file)"
  obtain saved fsa where sv: "save_upload w ?p (content file) fs = (saved, fsa)"
    by force
  show ?thesis
  proof (cases saved)
    case (Some e)
    with assms sv show ?thesis
      by (simp add: main_try_def)
  next
    case None
    obtain r s1 where pd:
      "process_document w (main_embeddings key) (main_llm key) ?p fsa s = (r, s1)"
      by force
    with assms sv None obtain e where "r = Inl e" "s1 = s'"
      by (cases r) (auto simp: main_try_def)
    with pd show ?thesis
      by (auto dest: process_document_failure)
  qed
qed

text \<open>
  An upload to \<open>main.py\<close> whose processing failed leaves the state as it was, or with the
  index alone replaced, whatever the \<open>finally\<close> then does.
\<close>

lemma main_upload_failure_session:
  assumes "main_processing w key file s fs = Inl f"
    and "main_upload_file w key file s fs = (r, s', fs')"
  shows "s' = s \<or> index_only_replaced w (main_llm key) s s'"
proof -
  obtain t s1 fs1 where t: "main_try w key file s fs = (t, s1, fs1)"
    by (cases "main_try w key file s fs") auto
  with assms(1) have "t = Inl f"
    by (simp add: main_processing_def)
  moreover from assms(2) t have "s1 = s'"
    by (metis main_upload_file_session fst_conv snd_conv)
  ultimately show ?thesis
    using t by (auto dest: main_try_failure_session)
qed

lemma mock_try_failure_session:
  assumes "mock_try w key p s fs1 = (Inl f, s')"
  shows "s' = s \<or> index_only_replaced w (mock_llm key) s s'"
proof -
  obtain r s1 where pd:
    "process_document w (mock_embeddings key) (mock_llm key) p fs1 s = (r, s1)"
    by force
  with assms obtain e where "r = Inl e" "s1 = s'"
    by (cases r) (auto simp: mock_try_def)
  with pd show ?thesis
    by (auto dest: process_document_failure)
qed

text \<open>The same for \<open>Mock.py\<close>.\<close>

lemma mock_upload_failure_session:
  assumes "mock_processing w key file s fs = Inl f"
    and "mock_upload_file w key file u s fs = (r, s', fs')"
  shows "s' = s \<or> index_only_replaced w (mock_llm key) s s'"
proof -
  let ?p = "os_path_join UPLOAD_DIR (filename file)"
  obtain saved fsa where sv: "save_upload w ?p (content file) fs = (saved, fsa)"
    by force
  show ?thesis
  proof (cases saved)
    case (Some e)
    with assms(2) sv show ?thesis
      by (simp add: mock_upload_file_def)
  next
    case None
    obtain t s1 where mt: "mock_try w key ?p s fsa = (t, s1)"
      by force
    with assms(1) sv None have "t = Inl f"
      by (simp add: mock_processing_def)
    moreover from assms(2) sv None mt have "s1 = s'"
      by (auto simp: mock_upload_file_def split: sum.splits)
    ultimately show ?thesis
      using mt by (auto dest: mock_try_failure_session)
  qed
qed


section \<open>The claims on upload and ask\<close>

text \<open>Evaluations of the example uploads, used by the closed theorems below.\<close>

lemma main_try_b_txt_llm_down:
  "main_try llm_down key b_txt s no_files =
     (Inl (HTTPException 500 ''Internal Server Error: no model''),
      s\<lparr>vector_store := Some (FAISS [Document ''new''] (main_embeddings key))\<rparr>,
      no_files(''uploads/b.txt'' \<mapsto> File ''new''))"
  by (simp add: main_try_def example_uploads staged_paths save_upload_def llm_down_def
        calm_def process_document_def loader_b_txt read_file_def no_files_def)

lemma main_upload_b_txt_llm_down_any:
  "main_upload_file llm_down key b_txt s no_files =
     (Inl (HTTPException 500 ''Internal Server Error: no model''),
      s\<lparr>vector_store := Some (FAISS [Document ''new''] (main_embeddings key))\<rparr>, no_files)"
proof -
  have "no_files (os_path_join UPLOAD_DIR (filename b_txt)) \<noteq> Some Directory"
    and "unlink llm_down (os_path_join UPLOAD_DIR (filename b_txt)) = None"
    by (simp_all add: no_files_def llm_down_def calm_def)
  then show ?thesis
    by (simp add: main_upload_file_cleanup main_try_b_txt_llm_down)
       (simp add: no_files_def)
qed


lemma mock_try_a_pdf_unreadable:
  "mock_try unreadable ''sk-1'' ''uploads/a.pdf'' old_session fs =
     (Inl (HTTPException 500 ''cannot read''), old_session)"
  by (simp add: mock_try_def process_document_def loader_a_pdf unreadable_def calm_def)

text \<open>
  C3, in \<open>main.py\<close>: once the file is saved, an extension outside the five is answered
  with 400 and the message naming it, where the removal of the staged file is not
  refused.
\<close>

lemma main_upload_unsupported_400:
  assumes saved: "fs (os_path_join UPLOAD_DIR (filename file)) \<noteq> Some Directory"
      "open_wb w (os_path_join UPLOAD_DIR (filename file)) = None" "copyfileobj w = None"
    and removed: "unlink w (os_path_join UPLOAD_DIR (filename file)) = None"
    and ext: "filename file = base @ ''.'' @ ext" "CHR ''.'' \<notin> set ext"
    and bad: "lower ext \<notin> {''pdf'', ''docx'', ''doc'', ''txt'', ''csv''}"
  shows "fst (main_upload_file w key file s fs) =
           Inl (HTTPException 400 (''Unsupported file format: '' @ lower ext))"
proof -
  let ?p = "os_path_join UPLOAD_DIR (filename file)"
  have "last (split CHR ''.'' ?p) = ext"
    using staged_extension [OF ext(2), of base] ext(1) by simp
  with bad have "get_loader_for_file (new_loader w) ?p =
      Inl (ValueError (''Unsupported file format: '' @ lower ext))"
    using get_loader_unsupported [of ?p] by simp
  with saved removed show ?thesis
    by (simp add: main_upload_file_cleanup main_try_def save_upload_ok process_document_def)
qed

text \<open>
  C3, in \<open>Mock.py\<close>: the same upload is answered with 500, since the one \<open>except\<close> clause
  does not tell \<open>ValueError\<close> apart.
\<close>

lemma mock_upload_unsupported_500:
  assumes saved: "fs (os_path_join UPLOAD_DIR (filename file)) \<noteq> Some Directory"
      "open_wb w (os_path_join UPLOAD_DIR (filename file)) = None" "copyfileobj w = None"
    and removed: "unlink w (os_path_join UPLOAD_DIR (filename file)) = None"
    and ext: "filename file = base @ ''.'' @ ext" "CHR ''.'' \<notin> set ext"
    and bad: "lower ext \<notin> {''pdf'', ''docx'', ''doc'', ''txt'', ''csv''}"
  shows "fst (mock_upload_file w key file u s fs) =
           Inl (HTTPException 500 (''Unsupported file format: '' @ lower ext))"
proof -
  let ?p = "os_path_join UPLOAD_DIR (filename file)"
  have "last (split CHR ''.'' ?p) = ext"
    using staged_extension [OF ext(2), of base] ext(1) by simp
  with bad have "get_loader_for_file (new_loader w) ?p =
      Inl (ValueError (''Unsupported file format: '' @ lower ext))"
    using get_loader_unsupported [of ?p] by simp
  with saved removed show ?thesis
    by (simp add: mock_upload_file_cleanup mock_try_def process_document_def)
qed

text \<open>
  C3 (the code departs from the claim): the upload of \<open>notes.xyz\<close> to \<open>Mock.py\<close>, in a
  world where every call succeeds, is answered with status 500, not 400; the detail names
  the extension \<open>xyz\<close>, the state is unchanged and the staged file is removed. (Only where
  a directory is already at the staged path does the save fail before the selector is
  asked.)
\<close>

theorem mock_upload_unsupported_format_is_500:
  "mock_upload_file calm key notes_xyz u s fs =
     (if fs ''uploads/notes.xyz'' = Some Directory
      then (Inl (Uncaught IsADirectoryError), s, fs)
      else (Inl (HTTPException 500 ''Unsupported file format: xyz''), s,
            fs(''uploads/notes.xyz'' := None)))"
proof (cases "fs ''uploads/notes.xyz'' = Some Directory")
  case True
  then show ?thesis
    by (simp add: mock_upload_file_def example_uploads staged_paths save_upload_on_directory)
next
  case False
  then have "fs (os_path_join UPLOAD_DIR (filename notes_xyz)) \<noteq> Some Directory"
    by (simp add: example_uploads staged_paths)
  moreover have "open_wb calm (os_path_join UPLOAD_DIR (filename notes_xyz)) = None"
    and "copyfileobj calm = None"
    and "unlink calm (os_path_join UPLOAD_DIR (filename notes_xyz)) = None"
    by (simp_all add: example_worlds)
  ultimately have "mock_upload_file calm key notes_xyz u s fs =
     (case mock_try calm key (os_path_join UPLOAD_DIR (filename notes_xyz)) s
             (fs(os_path_join UPLOAD_DIR (filename notes_xyz) \<mapsto> File (content notes_xyz))) of
        (result, s1) \<Rightarrow>
          (result, s1, fs(os_path_join UPLOAD_DIR (filename notes_xyz) := None)))"
    by (rule mock_upload_file_cleanup)
  with False show ?thesis
    by (simp add: example_uploads staged_paths mock_try_def process_document_def
          loader_notes_xyz)
qed

text \<open>
  C1 (refuted as stated): with no index built, the empty question is answered with the
  400 of the readiness test, not with the 422 of the validation.
\<close>

theorem empty_question_before_upload_is_400:
  "main_ask_question calm initial_session [] =
     Inl (HTTPException 400 ''No document has been uploaded yet'')
   \<and> main_ask_question calm initial_session [] \<noteq>
     Inl (HTTPException 422 ''Question cannot be empty'')"
  by (simp add: main_ask_question_def initial_session_def)

text \<open>
  C1 (amended): in \<open>main.py\<close>, a question that is empty or consists of white space is
  answered with the 422 validation error when both fields of the Session State are set,
  and with the 400 of the readiness test when one of them is not.
\<close>

theorem empty_question_validation:
  "\<forall>c \<in> set q. is_space c \<Longrightarrow>
     main_ask_question w s q =
       (if vector_store s = None \<or> qa_chain s = None
        then Inl (HTTPException 400 ''No document has been uploaded yet'')
        else Inl (HTTPException 422 ''Question cannot be empty''))"
  by (simp add: main_ask_question_def strip_empty_iff)

theorem empty_question_validation_witness:
  "is_space CHR '' ''
   \<and> main_ask_question calm old_session ''   '' =
       Inl (HTTPException 422 ''Question cannot be empty'')
   \<and> main_ask_question calm initial_session ''   '' =
       Inl (HTTPException 400 ''No document has been uploaded yet'')"
  using empty_question_validation [of "''   ''" calm old_session]
        empty_question_validation [of "''   ''" calm initial_session]
  by (simp add: is_space_def old_session_def initial_session_def)

text \<open>
  \<open>Mock.py\<close> does not test the question: with an index built, the empty question goes to
  the chain.
\<close>

lemma mock_ask_empty_question:
  "mock_ask_question calm old_session \<lparr>question = [], chat_history = []\<rparr> u =
     Inr (AskResponse ''an answer'' [''old''])"
  by (simp add: mock_ask_question_def old_session_def old_index_def calm_def)




section \<open>The claim on names without a dot\<close>

lemma get_loader_staged_dotless:
  assumes "CHR ''.'' \<notin> set name"
  shows "get_loader_for_file nl (os_path_join UPLOAD_DIR name) =
           Inl (ValueError (''Unsupported file format: '' @ lower (os_path_join UPLOAD_DIR name)))"
proof -
  let ?p = "os_path_join UPLOAD_DIR name"
  from assms have "last (split CHR ''.'' ?p) = ?p"
    by (simp add: staged_dotless last_split_no_sep)
  moreover have "lower ?p \<notin> {''pdf'', ''docx'', ''doc'', ''txt'', ''csv''}"
    by (rule slash_not_supported) (rule lower_keeps_slash, rule staged_has_slash)
  ultimately show ?thesis
    using get_loader_unsupported [of ?p nl] by simp
qed

text \<open>In \<open>main.py\<close> such an upload, once saved, is answered with 400.\<close>

lemma main_upload_dotless_400:
  assumes "CHR ''.'' \<notin> set (filename file)"
    and "fs (os_path_join UPLOAD_DIR (filename file)) \<noteq> Some Directory"
      "open_wb w (os_path_join UPLOAD_DIR (filename file)) = None" "copyfileobj w = None"
    and "unlink w (os_path_join UPLOAD_DIR (filename file)) = None"
  shows "fst (main_upload_file w key file s fs) =
           Inl (HTTPException 400 (''Unsupported file format: ''
                  @ lower (os_path_join UPLOAD_DIR (filename file))))"
  using assms(2-5) get_loader_staged_dotless [OF assms(1), of "new_loader w"]
  by (simp add: main_upload_file_cleanup main_try_def save_upload_ok process_document_def
        Let_def)

text \<open>
  C10 (refuted as stated): the upload of a file named exactly \<open>pdf\<close> does not select the
  PDF extractor. The selector is handed the staging path \<open>uploads/pdf\<close>, takes the whole
  of it as the extension and refuses it; \<open>main.py\<close> answers 400.
\<close>

theorem dotless_pdf_is_refused:
  "get_loader_for_file (new_loader calm) (os_path_join UPLOAD_DIR (filename dotless_pdf)) =
     Inl (ValueError ''Unsupported file format: uploads/pdf'')
   \<and> main_upload_file calm ''sk-1'' dotless_pdf initial_session no_files =
     (Inl (HTTPException 400 ''Unsupported file format: uploads/pdf''),
      initial_session, no_files)"
proof -
  have l: "lower ''uploads/pdf'' = ''uploads/pdf''"
    by code_simp
  have sel: "get_loader_for_file nl ''uploads/pdf'' =
      Inl (ValueError ''Unsupported file format: uploads/pdf'')" for nl
    using get_loader_staged_dotless [of "''pdf''" nl]
    by (simp add: staged_paths l)
  have "no_files (os_path_join UPLOAD_DIR (filename dotless_pdf)) \<noteq> Some Directory"
    and "unlink calm (os_path_join UPLOAD_DIR (filename dotless_pdf)) = None"
    by (simp_all add: no_files_def example_worlds)
  then have "main_upload_file calm ''sk-1'' dotless_pdf initial_session no_files =
     (case main_try calm ''sk-1'' dotless_pdf initial_session no_files of
        (result, s1, fs1) \<Rightarrow>
          (result, s1, no_files(os_path_join UPLOAD_DIR (filename dotless_pdf) := None)))"
    by (rule main_upload_file_cleanup)
  then have "main_upload_file calm ''sk-1'' dotless_pdf initial_session no_files =
     (Inl (HTTPException 400 ''Unsupported file format: uploads/pdf''),
      initial_session, no_files)"
    by (simp add: main_try_def example_uploads staged_paths save_upload_def example_worlds
          process_document_def sel no_files_def Let_def)
  with sel show ?thesis
    by (simp add: example_uploads staged_paths)
qed

text \<open>
  C10 (amended): for every uploaded name without a dot, the selector is handed the staging
  path built from it, and takes the whole of that path, in lower case, as the extension.
  The path has a \<open>/\<close>, so it is none of the five extensions: every such name, \<open>pdf\<close>
  included, is refused with the unsupported-format error, which names the whole staging
  path in lower case.
\<close>

theorem dotless_upload_is_refused:
  "CHR ''.'' \<notin> set name \<Longrightarrow>
     get_loader_for_file nl (os_path_join UPLOAD_DIR name) =
       Inl (ValueError (''Unsupported file format: '' @ lower (os_path_join UPLOAD_DIR name)))"
  by (rule get_loader_staged_dotless)

theorem dotless_upload_is_refused_witness:
  "CHR ''.'' \<notin> set ''README''
   \<and> get_loader_for_file (new_loader calm) (os_path_join UPLOAD_DIR ''README'') =
       Inl (ValueError ''Unsupported file format: uploads/readme'')"
proof -
  have l: "lower ''uploads/README'' = ''uploads/readme''"
    by code_simp
  have d: "CHR ''.'' \<notin> set ''README''"
    by simp
  from dotless_upload_is_refused [OF d, of "new_loader calm"] d show ?thesis
    by (simp add: staged_paths l)
qed

section \<open>The claim on the staged file\<close>

text \<open>
  C5 (the code departs from the claim): an upload to \<open>main.py\<close> under the name \<open>..\<close>.
  The staging path \<open>uploads/..\<close> is a directory, so \<open>open\<close> raises and the \<open>try\<close> block
  ends in the 500 of its \<open>except\<close> clause; in the \<open>finally\<close> the test
  \<open>os.path.exists\<close> holds of the directory and \<open>os.remove\<close> raises
  \<open>IsADirectoryError\<close>, which leaves the handler in place of the 500: the cleanup itself
  raises.
\<close>

theorem cleanup_raises_on_directory:
  "main_try calm key dot_dot s server_dirs =
     (Inl (HTTPException 500 ''Internal Server Error: [Errno 21] Is a directory''),
      s, server_dirs)
   \<and> main_upload_file calm key dot_dot s server_dirs =
     (Inl (Uncaught IsADirectoryError), s, server_dirs)"
proof -
  have d: "server_dirs ''uploads/..'' = Some Directory"
    by (simp add: server_dirs_def)
  then have t: "main_try calm key dot_dot s server_dirs =
     (Inl (HTTPException 500 ''Internal Server Error: [Errno 21] Is a directory''),
      s, server_dirs)"
    by (simp add: main_try_def example_uploads staged_paths save_upload_on_directory
          IsADirectoryError_def Let_def)
  with d show ?thesis
    by (simp add: main_upload_file_def example_uploads staged_paths os_path_exists_def
          os_remove_def Let_def)
qed

text \<open>
  In \<open>Mock.py\<close> the save comes before the \<open>try\<close>: when the copy fails, the handler is
  left at once and the part of the file that was written stays in the staging directory.
\<close>

lemma mock_upload_partial_file_stays:
  "mock_upload_file disk_full key b_txt u s no_files =
     (Inl (Uncaught (OtherError ''OSError'' ''[Errno 28] No space left on device'')), s,
      no_files(''uploads/b.txt'' \<mapsto> File ''ne''))"
  by (simp add: mock_upload_file_def example_uploads staged_paths save_upload_def
        disk_full_def calm_def no_files_def Let_def)

text \<open>
  In both files \<open>os.remove\<close> can be refused: the exception leaves the handler from the
  \<open>finally\<close>, the file stays, and the state is the one the \<open>try\<close> block left, here the
  newly built pair.
\<close>

lemma mock_upload_removal_refused:
  "mock_upload_file protected key b_txt u initial_session no_files =
     (Inl (Uncaught (OtherError ''PermissionError'' ''[Errno 13] Permission denied'')),
      \<lparr>vector_store = Some (FAISS [Document ''new''] (mock_embeddings key)),
       qa_chain = Some (ConversationalRetrievalChain (mock_llm key)
                    (VectorStoreRetriever (FAISS [Document ''new''] (mock_embeddings key)))
                    True)\<rparr>,
      no_files(''uploads/b.txt'' \<mapsto> File ''new''))"
  by (simp add: mock_upload_file_def example_uploads staged_paths save_upload_def
        protected_def calm_def no_files_def mock_try_def process_document_def loader_b_txt
        read_file_def os_remove_def initial_session_def Let_def)

lemma main_upload_removal_refused:
  "main_upload_file protected key b_txt initial_session no_files =
     (Inl (Uncaught (OtherError ''PermissionError'' ''[Errno 13] Permission denied'')),
      \<lparr>vector_store = Some (FAISS [Document ''new''] (main_embeddings key)),
       qa_chain = Some (ConversationalRetrievalChain (main_llm key)
                    (VectorStoreRetriever (FAISS [Document ''new''] (main_embeddings key)))
                    True)\<rparr>,
      no_files(''uploads/b.txt'' \<mapsto> File ''new''))"
  by (simp add: main_upload_file_def main_try_def example_uploads staged_paths
        save_upload_def protected_def calm_def no_files_def process_document_def loader_b_txt
        read_file_def os_remove_def os_path_exists_def initial_session_def Let_def)

section \<open>The claims on the Auth Gate\<close>

lemma get_current_user_cases:
  "get_current_user w token =
     (case jwt_decode w token SECRET_KEY [ALGORITHM] of
        Inl e \<Rightarrow> Inl (Uncaught no_attribute_JWTError)
      | Inr payload \<Rightarrow>
          (case map_of payload ''sub'' of
             None \<Rightarrow> Inl (Uncaught no_attribute_JWTError)
           | Some subject \<Rightarrow>
               (case users_db_get subject of
                  None \<Rightarrow> Inl (Uncaught no_attribute_JWTError)
                | Some user \<Rightarrow> Inr user)))"
  by (simp add: get_current_user_def except_jwt_JWTError_def split: sum.splits option.splits)

text \<open>Whatever fails in the gate, it is the \<open>AttributeError\<close> that leaves it.\<close>

lemma get_current_user_failure:
  "get_current_user w token = Inl f \<Longrightarrow> f = Uncaught no_attribute_JWTError"
  by (auto simp: get_current_user_cases split: sum.splits option.splits)

text \<open>The gate lets a token through exactly when it decodes to a subject of the table.\<close>

lemma get_current_user_success:
  "get_current_user w token = Inr user \<longleftrightarrow>
     (\<exists>payload subject.
        jwt_decode w token SECRET_KEY [ALGORITHM] = Inr payload \<and>
        map_of payload ''sub'' = Some subject \<and> users_db_get subject = Some user)"
  by (auto simp: get_current_user_cases split: sum.splits option.splits)

lemma calm_tokens:
  "jwt_decode calm ''good'' SECRET_KEY [ALGORITHM] =
     Inr [(''sub'', Str ''admin''), (''exp'', NumericDate 1800)]"
  "jwt_decode calm ''expired'' SECRET_KEY [ALGORITHM] = Inl ExpiredSignature"
  "jwt_decode calm ''forged'' SECRET_KEY [ALGORITHM] = Inl InvalidSignature"
  "jwt_decode calm ''nosub'' SECRET_KEY [ALGORITHM] = Inr [(''exp'', NumericDate 1800)]"
  "jwt_decode calm ''mallory'' SECRET_KEY [ALGORITHM] =
     Inr [(''sub'', Str ''mallory''), (''exp'', NumericDate 1800)]"
  by (simp_all add: calm_def SECRET_KEY_def ALGORITHM_def)

text \<open>
  C7 (the code departs from the claim): an expired token, a token whose signature does
  not verify, a token without subject and a token of a user the table does not have are
  each answered, not with an \<open>HTTPException\<close> of status 401, but with the uncaught
  \<open>AttributeError\<close> of the clause \<open>except jwt.JWTError\<close>, which the server turns into
  status 500; so are the protected operations called with such a token. The token of
  \<open>admin\<close> passes.
\<close>

theorem invalid_token_is_attribute_error:
  "get_current_user calm ''expired'' = Inl (Uncaught no_attribute_JWTError)
   \<and> get_current_user calm ''forged'' = Inl (Uncaught no_attribute_JWTError)
   \<and> get_current_user calm ''nosub'' = Inl (Uncaught no_attribute_JWTError)
   \<and> get_current_user calm ''mallory'' = Inl (Uncaught no_attribute_JWTError)
   \<and> mock_ask_endpoint calm ''expired'' \<lparr>question = ''What is new?'', chat_history = []\<rparr>
        old_session = Inl (Uncaught no_attribute_JWTError)
   \<and> mock_upload_endpoint calm key ''expired'' b_txt s fs =
        (Inl (Uncaught no_attribute_JWTError), s, fs)
   \<and> get_current_user calm ''good'' =
        Inr [(''username'', ''admin''), (''hashed_password'', ''hashed_admin_password'')]"
  by (simp add: get_current_user_cases calm_tokens users_db_def mock_ask_endpoint_def
        mock_upload_endpoint_def)

text \<open>\<open>login\<close> answers by the user name alone.\<close>

lemma login_by_username:
  "login w form_data =
     (if username form_data = ''admin''
      then Inr \<lparr>access_token =
                  jwt_encode w [(''sub'', Str ''admin''),
                                (''exp'', NumericDate (utcnow w + 1800))] SECRET_KEY ALGORITHM,
                token_type = ''bearer''\<rparr>
      else Inl (HTTPException 400 ''Incorrect username or password''))"
  by (simp add: login_def users_db_def create_access_token_def ACCESS_TOKEN_EXPIRE_MINUTES_def)

text \<open>
  C4 (the code departs from the claim): for the user name \<open>admin\<close>, \<open>login\<close> returns a
  bearer token whatever the password is: the form's password is never read.
\<close>

theorem login_ignores_password:
  "login w \<lparr>username = ''admin'', password = pw\<rparr> =
     Inr \<lparr>access_token =
            jwt_encode w [(''sub'', Str ''admin''), (''exp'', NumericDate (utcnow w + 1800))]
              SECRET_KEY ALGORITHM,
          token_type = ''bearer''\<rparr>"
  by (simp add: login_by_username)

section \<open>The claim on the provider key\<close>

text \<open>
  C8 (the code departs from the claim): whatever the process environment holds, both
  modules stop at the guard with \<open>RuntimeError\<close>: the key is the empty literal of the
  source, and no statement reads the environment.
\<close>

theorem startup_ignores_environment:
  "main_startup environ = Inl (OtherError ''RuntimeError'' ''Please set a valid OpenAI API key'')
   \<and> mock_startup environ =
       Inl (OtherError ''RuntimeError'' ''OPENAI_API_KEY environment variable is not set'')"
  by (simp add: main_startup_def mock_startup_def openai_api_key_def)

section \<open>The claim on ask before any successful upload\<close>

lemma ask_without_pipeline:
  assumes "qa_chain s = None"
  shows "main_ask_question w s q = Inl (HTTPException 400 ''No document has been uploaded yet'')"
    and "mock_ask_question w s request u =
           Inl (HTTPException 400 ''No document has been uploaded yet'')"
  using assms by (simp_all add: main_ask_question_def mock_ask_question_def)

lemma main_upload_failure_qa:
  assumes "main_processing w key x s fs = Inl f"
    and "main_upload_file w key x s fs = (r, s', fs')"
  shows "qa_chain s' = qa_chain s"
  using main_upload_failure_session [OF assms] index_only_replaced_fields by auto

lemma mock_endpoint_failure_qa:
  assumes "mock_endpoint_processing w key bearer x s fs = Inl f"
    and "mock_upload_endpoint w key bearer x s fs = (r, s', fs')"
  shows "qa_chain s' = qa_chain s"
proof (cases "get_current_user w bearer")
  case (Inl g)
  with assms(2) show ?thesis
    by (simp add: mock_upload_endpoint_def)
next
  case (Inr user)
  with assms have "mock_processing w key x s fs = Inl f"
    and "mock_upload_file w key x user s fs = (r, s', fs')"
    by (simp_all add: mock_endpoint_processing_def mock_upload_endpoint_def)
  from mock_upload_failure_session [OF this] index_only_replaced_fields show ?thesis
    by auto
qed

text \<open>As long as no upload succeeds, the pipeline field stays as it was.\<close>

lemma main_uploads_failed_qa:
  "list_all isl (fst (main_uploads key reqs s fs)) \<Longrightarrow>
     qa_chain (fst (snd (main_uploads key reqs s fs))) = qa_chain s"
proof (induction reqs arbitrary: s fs)
  case Nil
  show ?case by simp
next
  case (Cons req reqs)
  obtain w x where req: "req = (w, x)"
    by (cases req) auto
  obtain r s1 fs1 where up: "main_upload_file w key x s fs = (r, s1, fs1)"
    by (cases "main_upload_file w key x s fs") auto
  obtain rs s2 fs2 where rest: "main_uploads key reqs s1 fs1 = (rs, s2, fs2)"
    by (cases "main_uploads key reqs s1 fs1") auto
  from Cons.prems req up rest have p: "isl (main_processing w key x s fs)"
    and rs: "list_all isl rs"
    by simp_all
  from p obtain f where "main_processing w key x s fs = Inl f"
    by (cases "main_processing w key x s fs") auto
  with up have "qa_chain s1 = qa_chain s"
    by (auto dest: main_upload_failure_qa)
  moreover from Cons.IH [of s1 fs1] rest rs have "qa_chain s2 = qa_chain s1"
    by simp
  ultimately show ?case
    using req up rest by simp
qed

lemma mock_uploads_failed_qa:
  "list_all isl (fst (mock_uploads key reqs s fs)) \<Longrightarrow>
     qa_chain (fst (snd (mock_uploads key reqs s fs))) = qa_chain s"
proof (induction reqs arbitrary: s fs)
  case Nil
  show ?case by simp
next
  case (Cons req reqs)
  obtain w bearer x where req: "req = (w, bearer, x)"
    by (cases req) auto
  obtain r s1 fs1 where up: "mock_upload_endpoint w key bearer x s fs = (r, s1, fs1)"
    by (cases "mock_upload_endpoint w key bearer x s fs") auto
  obtain rs s2 fs2 where rest: "mock_uploads key reqs s1 fs1 = (rs, s2, fs2)"
    by (cases "mock_uploads key reqs s1 fs1") auto
  from Cons.prems req up rest have p: "isl (mock_endpoint_processing w key bearer x s fs)"
    and rs: "list_all isl rs"
    by simp_all
  from p obtain f where "mock_endpoint_processing w key bearer x s fs = Inl f"
    by (cases "mock_endpoint_processing w key bearer x s fs") auto
  with up have "qa_chain s1 = qa_chain s"
    by (auto dest: mock_endpoint_failure_qa)
  moreover from Cons.IH [of s1 fs1] rest rs have "qa_chain s2 = qa_chain s1"
    by simp
  ultimately show ?case
    using req up rest by simp
qed

text \<open>
  C6: after any sequence of uploads none of which succeeded, starting from the initial
  Session State, and so in particular in the initial state itself, ask is answered with
  the 400 NotReady error, whatever the question (in \<open>Mock.py\<close>: whatever the request and
  the authenticated user).
\<close>

theorem ask_before_successful_upload:
  "(list_all isl (fst (main_uploads key reqs initial_session fs)) \<longrightarrow>
      main_ask_question w (fst (snd (main_uploads key reqs initial_session fs))) q =
        Inl (HTTPException 400 ''No document has been uploaded yet''))
   \<and> (list_all isl (fst (mock_uploads key mreqs initial_session fs)) \<longrightarrow>
      mock_ask_question w (fst (snd (mock_uploads key mreqs initial_session fs))) request u =
        Inl (HTTPException 400 ''No document has been uploaded yet''))
   \<and> main_ask_question w initial_session q =
        Inl (HTTPException 400 ''No document has been uploaded yet'')
   \<and> mock_ask_question w initial_session request u =
        Inl (HTTPException 400 ''No document has been uploaded yet'')"
proof -
  have init: "qa_chain initial_session = None"
    by (simp add: initial_session_def)
  have a: "main_ask_question w (fst (snd (main_uploads key reqs initial_session fs))) q =
        Inl (HTTPException 400 ''No document has been uploaded yet'')"
    if "list_all isl (fst (main_uploads key reqs initial_session fs))"
    using main_uploads_failed_qa [OF that] init
    by (simp add: ask_without_pipeline)
  have b: "mock_ask_question w (fst (snd (mock_uploads key mreqs initial_session fs))) request u =
        Inl (HTTPException 400 ''No document has been uploaded yet'')"
    if "list_all isl (fst (mock_uploads key mreqs initial_session fs))"
    using mock_uploads_failed_qa [OF that] init
    by (simp add: ask_without_pipeline)
  from a b init show ?thesis
    by (simp add: ask_without_pipeline)
qed

lemma main_try_a_pdf_unreadable:
  "main_try unreadable key a_pdf s no_files =
     (Inl (HTTPException 500 ''Internal Server Error: cannot read''), s,
      no_files(''uploads/a.pdf'' \<mapsto> File ''%PDF''))"
  by (simp add: main_try_def example_uploads staged_paths save_upload_def unreadable_def
        calm_def process_document_def loader_a_pdf read_file_def no_files_def Let_def)

lemma main_upload_a_pdf_unreadable:
  "main_upload_file unreadable key a_pdf s no_files =
     (Inl (HTTPException 500 ''Internal Server Error: cannot read''), s, no_files)"
proof -
  have "no_files (os_path_join UPLOAD_DIR (filename a_pdf)) \<noteq> Some Directory"
    and "unlink unreadable (os_path_join UPLOAD_DIR (filename a_pdf)) = None"
    by (simp_all add: no_files_def unreadable_def calm_def)
  then show ?thesis
    by (simp add: main_upload_file_cleanup main_try_a_pdf_unreadable)
       (simp add: no_files_def)
qed

lemma get_current_user_calm_forged:
  "get_current_user calm ''forged'' = Inl (Uncaught no_attribute_JWTError)"
  by (simp add: get_current_user_cases calm_tokens)

lemma get_current_user_llm_down_good:
  "get_current_user llm_down ''good'' =
     Inr [(''username'', ''admin''), (''hashed_password'', ''hashed_admin_password'')]"
  by (simp add: get_current_user_cases llm_down_def calm_def SECRET_KEY_def ALGORITHM_def
        users_db_def)

lemma mock_try_b_txt_llm_down:
  "mock_try llm_down key ''uploads/b.txt'' s (no_files(''uploads/b.txt'' \<mapsto> File ''new'')) =
     (Inl (HTTPException 500 ''no model''),
      s\<lparr>vector_store := Some (FAISS [Document ''new''] (mock_embeddings key))\<rparr>)"
  by (simp add: mock_try_def llm_down_def calm_def process_document_def loader_b_txt
        read_file_def)

lemma mock_upload_b_txt_llm_down_any:
  "mock_upload_file llm_down key b_txt u s no_files =
     (Inl (HTTPException 500 ''no model''),
      s\<lparr>vector_store := Some (FAISS [Document ''new''] (mock_embeddings key))\<rparr>, no_files)"
proof -
  have "no_files (os_path_join UPLOAD_DIR (filename b_txt)) \<noteq> Some Directory"
    and "open_wb llm_down (os_path_join UPLOAD_DIR (filename b_txt)) = None"
    and "copyfileobj llm_down = None"
    and "unlink llm_down (os_path_join UPLOAD_DIR (filename b_txt)) = None"
    by (simp_all add: no_files_def llm_down_def calm_def)
  then show ?thesis
    by (simp add: mock_upload_file_cleanup example_uploads staged_paths
          mock_try_b_txt_llm_down)
       (simp add: no_files_def)
qed

lemma mock_processing_b_txt_llm_down:
  "mock_processing llm_down key b_txt s no_files = Inl (HTTPException 500 ''no model'')"
  by (simp add: mock_processing_def example_uploads staged_paths save_upload_def
        llm_down_def calm_def no_files_def Let_def)
     (simp add: mock_try_def process_document_def loader_b_txt read_file_def)

lemma failed_main_history_run:
  "main_uploads ''sk-1'' failed_main_history initial_session no_files =
     ([Inl (HTTPException 500 ''Internal Server Error: cannot read''),
       Inl (HTTPException 500 ''Internal Server Error: no model'')],
      initial_session\<lparr>vector_store := Some (FAISS [Document ''new''] (main_embeddings ''sk-1''))\<rparr>,
      no_files)"
  by (simp add: failed_main_history_def main_upload_a_pdf_unreadable
        main_upload_b_txt_llm_down_any main_processing_def main_try_a_pdf_unreadable
        main_try_b_txt_llm_down)

lemma failed_mock_history_run:
  "mock_uploads ''sk-1'' failed_mock_history initial_session no_files =
     ([Inl (Uncaught no_attribute_JWTError), Inl (HTTPException 500 ''no model'')],
      initial_session\<lparr>vector_store := Some (FAISS [Document ''new''] (mock_embeddings ''sk-1''))\<rparr>,
      no_files)"
  by (simp add: failed_mock_history_def mock_upload_endpoint_def mock_endpoint_processing_def
        get_current_user_calm_forged get_current_user_llm_down_good
        mock_upload_b_txt_llm_down_any mock_processing_b_txt_llm_down)

theorem ask_before_successful_upload_witness:
  "list_all isl (fst (main_uploads ''sk-1'' failed_main_history initial_session no_files))
   \<and> vector_store (fst (snd (main_uploads ''sk-1'' failed_main_history initial_session no_files)))
       = Some (FAISS [Document ''new''] (main_embeddings ''sk-1''))
   \<and> main_ask_question calm
        (fst (snd (main_uploads ''sk-1'' failed_main_history initial_session no_files)))
        ''What is new?'' = Inl (HTTPException 400 ''No document has been uploaded yet'')
   \<and> list_all isl (fst (mock_uploads ''sk-1'' failed_mock_history initial_session no_files))
   \<and> mock_ask_question calm
        (fst (snd (mock_uploads ''sk-1'' failed_mock_history initial_session no_files)))
        \<lparr>question = ''What is new?'', chat_history = []\<rparr> ()
        = Inl (HTTPException 400 ''No document has been uploaded yet'')"
proof -
  have m: "list_all isl (fst (main_uploads ''sk-1'' failed_main_history initial_session no_files))"
    by (simp add: failed_main_history_run)
  have k: "list_all isl (fst (mock_uploads ''sk-1'' failed_mock_history initial_session no_files))"
    by (simp add: failed_mock_history_run)
  have v: "vector_store (fst (snd (main_uploads ''sk-1'' failed_main_history initial_session no_files)))
       = Some (FAISS [Document ''new''] (main_embeddings ''sk-1''))"
    by (simp add: failed_main_history_run)
  from ask_before_successful_upload
         [THEN conjunct1, rule_format, OF m, of calm "''What is new?''"]
       ask_before_successful_upload
         [THEN conjunct2, THEN conjunct1, rule_format, OF k, of calm
            "\<lparr>question = ''What is new?'', chat_history = []\<rparr>" "()"]
       m k v
  show ?thesis
    by simp
qed

end
